theory Spec2Isabelle
  imports Complex_Main "HOL-Library.Multiset"
begin

section \<open>Browser interface\<close>

text \<open>
  The page objects drive a browser page through Playwright locators. The browser is an
  external collaborator, so it is a parameter of the model: a record of the primitive
  operations the page objects call, each one a state transformer on an arbitrary page
  state \<open>'p\<close> that either returns a value or throws. An \<open>await\<close> of the source is a
  \<open>bind_io\<close>; a rejected promise is \<open>Inl\<close>.

  JavaScript strings are modelled as \<open>string\<close>: sequences of code units below 256.
\<close>

datatype error =
    Error string        \<comment> \<open>\<open>new Error(message)\<close>\<close>
  | TimeoutError        \<comment> \<open>a Playwright wait that ran out of time\<close>
  | ExpectError         \<comment> \<open>a failed \<open>expect(...)\<close> assertion\<close>

type_synonym ('a, 'p) io = "'p \<Rightarrow> (error + 'a) \<times> 'p"

definition return_io :: "'a \<Rightarrow> ('a, 'p) io" where
  "return_io v = (\<lambda>p. (Inr v, p))"

definition throw_io :: "error \<Rightarrow> ('a, 'p) io" where
  "throw_io e = (\<lambda>p. (Inl e, p))"

definition bind_io :: "('a, 'p) io \<Rightarrow> ('a \<Rightarrow> ('b, 'p) io) \<Rightarrow> ('b, 'p) io" where
  "bind_io m f = (\<lambda>p. case m p of (Inl e, p') \<Rightarrow> (Inl e, p') | (Inr v, p') \<Rightarrow> f v p')"

definition try_catch :: "('a, 'p) io \<Rightarrow> (error \<Rightarrow> ('a, 'p) io) \<Rightarrow> ('a, 'p) io" where
  "try_catch m h = (\<lambda>p. case m p of (Inl e, p') \<Rightarrow> h e p' | (Inr v, p') \<Rightarrow> (Inr v, p'))"

text \<open>\<open>for (const x of xs) { await body(x) }\<close> without \<open>break\<close>.\<close>

fun for_of :: "'a list \<Rightarrow> ('a \<Rightarrow> (unit, 'p) io) \<Rightarrow> (unit, 'p) io" where
  "for_of [] body = return_io ()"
| "for_of (x # xs) body = bind_io (body x) (\<lambda>_. for_of xs body)"

definition succeeds :: "(error + 'a) \<times> 'p \<Rightarrow> bool" where
  "succeeds r = (case fst r of Inl e \<Rightarrow> False | Inr v \<Rightarrow> True)"

datatype locator =
    Locator string             \<comment> \<open>\<open>page.locator(selector)\<close>\<close>
  | Within locator string      \<comment> \<open>\<open>parent.locator(selector)\<close>\<close>
  | Nth locator nat            \<comment> \<open>\<open>parent.nth(i)\<close>, the entries of \<open>parent.all()\<close>\<close>

record 'p browser =
  click :: "locator \<Rightarrow> (unit, 'p) io"
  clear :: "locator \<Rightarrow> (unit, 'p) io"
  fill :: "locator \<Rightarrow> string \<Rightarrow> (unit, 'p) io"
  textContent :: "locator \<Rightarrow> (string option, 'p) io"
  allTextContents :: "locator \<Rightarrow> (string list, 'p) io"
  waitFor :: "locator \<Rightarrow> nat \<Rightarrow> (unit, 'p) io"
  locator_all :: "locator \<Rightarrow> (locator list, 'p) io"

section \<open>JavaScript string built-ins\<close>

text \<open>
  \<open>String.prototype.trim\<close> removes white space and line terminators from both ends. Below
  256 these are TAB, LF, VT, FF, CR, SPACE and NBSP.
\<close>

definition isWhiteSpace :: "char \<Rightarrow> bool" where
  "isWhiteSpace c = (of_char c \<in> {9, 10, 11, 12, 13, 32, 160 :: nat})"

definition trim :: "string \<Rightarrow> string" where
  "trim s = rev (dropWhile isWhiteSpace (rev (dropWhile isWhiteSpace s)))"

section \<open>Assertions\<close>

text \<open>
  \<open>expect(array).toContain(x)\<close> and \<open>expect(a).toBe(b)\<close> throw when the check fails;
  on strings and numbers both compare with strict equality.
\<close>

definition expect_toContain :: "'a list \<Rightarrow> 'a \<Rightarrow> (unit, 'p) io" where
  "expect_toContain received expected =
     (if expected \<in> set received then return_io () else throw_io ExpectError)"

definition expect_toBe :: "'a \<Rightarrow> 'a \<Rightarrow> (unit, 'p) io" where
  "expect_toBe received expected =
     (if received = expected then return_io () else throw_io ExpectError)"

section \<open>CartPage and CheckoutOverviewPage: item verification\<close>

definition cartItemNames :: locator where
  "cartItemNames = Locator ''.inventory_item_name''"

definition getCartItemNames :: "'p browser \<Rightarrow> (string list, 'p) io" where
  "getCartItemNames br =
     bind_io (allTextContents br cartItemNames) (\<lambda>names.
     return_io (map trim names))"

definition verifyCartItems :: "'p browser \<Rightarrow> string list \<Rightarrow> (unit, 'p) io" where
  "verifyCartItems br expectedItems =
     bind_io (getCartItemNames br) (\<lambda>actualItems.
     bind_io (for_of expectedItems (\<lambda>expectedItem. expect_toContain actualItems expectedItem)) (\<lambda>_.
     expect_toBe (length actualItems) (length expectedItems)))"

text \<open>\<open>CheckoutOverviewPage\<close> declares the same locator and the same two methods.\<close>

definition overview_cartItemNames :: locator where
  "overview_cartItemNames = Locator ''.inventory_item_name''"

definition overview_getCartItemNames :: "'p browser \<Rightarrow> (string list, 'p) io" where
  "overview_getCartItemNames br =
     bind_io (allTextContents br overview_cartItemNames) (\<lambda>names.
     return_io (map trim names))"

definition verifyOrderItems :: "'p browser \<Rightarrow> string list \<Rightarrow> (unit, 'p) io" where
  "verifyOrderItems br expectedItems =
     bind_io (overview_getCartItemNames br) (\<lambda>actualItems.
     bind_io (for_of expectedItems (\<lambda>expectedItem. expect_toContain actualItems expectedItem)) (\<lambda>_.
     expect_toBe (length actualItems) (length expectedItems)))"

section \<open>A reference browser\<close>

text \<open>
  A browser showing a fixed document, used to run the page objects on concrete pages. A
  page lists, for each locator, the texts of the elements it matches, and records the
  actions performed on it. Actions and reads on a locator that matches nothing time out;
  a read through a locator that matches several elements is a strict-mode violation.
\<close>

datatype action = Click locator | Clear locator | Fill locator string

record page =
  shown :: "(locator \<times> string list) list"
  actions :: "action list"

definition matches :: "page \<Rightarrow> locator \<Rightarrow> string list" where
  "matches p l = (case map_of (shown p) l of None \<Rightarrow> [] | Some ts \<Rightarrow> ts)"

definition act :: "locator \<Rightarrow> action \<Rightarrow> (unit, page) io" where
  "act l a = (\<lambda>p. if matches p l = [] then (Inl TimeoutError, p)
                   else (Inr (), p\<lparr>actions := actions p @ [a]\<rparr>))"

definition read_text :: "locator \<Rightarrow> (string option, page) io" where
  "read_text l = (\<lambda>p. case matches p l of
                        [] \<Rightarrow> (Inl TimeoutError, p)
                      | [t] \<Rightarrow> (Inr (Some t), p)
                      | _ \<Rightarrow> (Inl (Error ''strict mode violation''), p))"

definition reference_browser :: "page browser" where
  "reference_browser = \<lparr>
     click = (\<lambda>l. act l (Click l)),
     clear = (\<lambda>l. act l (Clear l)),
     fill = (\<lambda>l v. act l (Fill l v)),
     textContent = read_text,
     allTextContents = (\<lambda>l p. (Inr (matches p l), p)),
     waitFor = (\<lambda>l t p. if matches p l = [] then (Inl TimeoutError, p) else (Inr (), p)),
     locator_all = (\<lambda>l p. (Inr (map (Nth l) [0..<length (matches p l)]), p)) \<rparr>"

definition cart_page_example :: page where
  "cart_page_example = \<lparr>
     shown = [(Locator ''.inventory_item_name'',
               ['' Sauce Labs Bike Light '', ''Sauce Labs Backpack''])],
     actions = [] \<rparr>"

section \<open>InventoryPage: adding items to the cart\<close>

text \<open>
  \<open>String.prototype.toLowerCase\<close> on code units below 256: the ASCII capitals and the
  Latin-1 capitals (all of 192..222 but the multiplication sign 215) move up by 32.
\<close>

definition toLowerCase_char :: "char \<Rightarrow> char" where
  "toLowerCase_char c =
     (let n = of_char c :: nat in
      if (65 \<le> n \<and> n \<le> 90) \<or> (192 \<le> n \<and> n \<le> 222 \<and> n \<noteq> 215)
      then char_of (n + 32) else c)"

definition toLowerCase :: "string \<Rightarrow> string" where
  "toLowerCase s = map toLowerCase_char s"

definition sauceLabsBackpack :: locator where
  \<open>sauceLabsBackpack = Locator ''[data-test="add-to-cart-sauce-labs-backpack"]''\<close>

definition sauceLabsBikeLight :: locator where
  \<open>sauceLabsBikeLight = Locator ''[data-test="add-to-cart-sauce-labs-bike-light"]''\<close>

definition sauceLabsBoltTShirt :: locator where
  \<open>sauceLabsBoltTShirt = Locator ''[data-test="add-to-cart-sauce-labs-bolt-t-shirt"]''\<close>

definition addBackpackToCart :: "'p browser \<Rightarrow> (unit, 'p) io" where
  "addBackpackToCart br = click br sauceLabsBackpack"

definition addBikeLightToCart :: "'p browser \<Rightarrow> (unit, 'p) io" where
  "addBikeLightToCart br = click br sauceLabsBikeLight"

definition addBoltTShirtToCart :: "'p browser \<Rightarrow> (unit, 'p) io" where
  "addBoltTShirtToCart br = click br sauceLabsBoltTShirt"

text \<open>The \<open>switch\<close> compares the lowercased name with each \<open>case\<close> label in turn.\<close>

definition addItemsToCart :: "'p browser \<Rightarrow> string list \<Rightarrow> (unit, 'p) io" where
  "addItemsToCart br items =
     for_of items (\<lambda>item.
       let key = toLowerCase item in
       if key = ''sauce labs backpack'' then addBackpackToCart br
       else if key = ''sauce labs bike light'' then addBikeLightToCart br
       else if key = ''sauce labs bolt t-shirt'' then addBoltTShirtToCart br
       else throw_io (Error (''Unknown item: '' @ item)))"

text \<open>
  The vocabulary of the claims about \<open>addItemsToCart\<close>: a name is recognized when its
  lowercased form is one of the three labels, and then it has an add-to-cart control.
  A casing variant of a name differs from it only in the case of ASCII letters.
\<close>

definition recognized :: "string \<Rightarrow> bool" where
  "recognized item = (toLowerCase item \<in>
     {''sauce labs backpack'', ''sauce labs bike light'', ''sauce labs bolt t-shirt''})"

definition add_control :: "string \<Rightarrow> locator" where
  "add_control item =
     (if toLowerCase item = ''sauce labs backpack'' then sauceLabsBackpack
      else if toLowerCase item = ''sauce labs bike light'' then sauceLabsBikeLight
      else sauceLabsBoltTShirt)"

definition isAsciiUpper :: "char \<Rightarrow> bool" where
  "isAsciiUpper c = (65 \<le> (of_char c :: nat) \<and> (of_char c :: nat) \<le> 90)"

definition same_letter :: "char \<Rightarrow> char \<Rightarrow> bool" where
  "same_letter a b =
     (a = b \<or> (isAsciiUpper a \<and> (of_char b :: nat) = of_char a + 32)
            \<or> (isAsciiUpper b \<and> (of_char a :: nat) = of_char b + 32))"

definition casing_variant :: "string \<Rightarrow> string \<Rightarrow> bool" where
  "casing_variant v k = list_all2 same_letter v k"

text \<open>
  The three known items with their add-to-cart controls, and the control of the known
  item that a name is a casing variant of.
\<close>

definition known_items :: "(string \<times> locator) list" where
  "known_items =
     [(''Sauce Labs Backpack'', sauceLabsBackpack),
      (''Sauce Labs Bike Light'', sauceLabsBikeLight),
      (''Sauce Labs Bolt T-Shirt'', sauceLabsBoltTShirt)]"

definition control_for :: "string \<Rightarrow> locator option" where
  "control_for item =
     map_option snd (find (\<lambda>known. casing_variant item (fst known)) known_items)"

definition inventory_page_example :: page where
  "inventory_page_example = \<lparr>
     shown = [(sauceLabsBackpack, [''Add to cart'']),
              (sauceLabsBikeLight, [''Add to cart'']),
              (sauceLabsBoltTShirt, [''Add to cart''])],
     actions = [] \<rparr>"

section \<open>LoginPage and CheckoutPage: forms and error banners\<close>

definition usernameInput :: locator where
  \<open>usernameInput = Locator ''[data-test="username"]''\<close>

definition passwordInput :: locator where
  \<open>passwordInput = Locator ''[data-test="password"]''\<close>

definition loginButton :: locator where
  \<open>loginButton = Locator ''[data-test="login-button"]''\<close>

definition LoginPage_errorMessage :: locator where
  \<open>LoginPage_errorMessage = Locator ''[data-test="error"]''\<close>

definition fillUsername :: "'p browser \<Rightarrow> string \<Rightarrow> (unit, 'p) io" where
  "fillUsername br username =
     bind_io (clear br usernameInput) (\<lambda>_.
     fill br usernameInput username)"

definition fillPassword :: "'p browser \<Rightarrow> string \<Rightarrow> (unit, 'p) io" where
  "fillPassword br password =
     bind_io (clear br passwordInput) (\<lambda>_.
     fill br passwordInput password)"

definition clickLogin :: "'p browser \<Rightarrow> (unit, 'p) io" where
  "clickLogin br = click br loginButton"

definition login :: "'p browser \<Rightarrow> string \<Rightarrow> string \<Rightarrow> (unit, 'p) io" where
  "login br username password =
     bind_io (fillUsername br username) (\<lambda>_.
     bind_io (fillPassword br password) (\<lambda>_.
     clickLogin br))"

definition LoginPage_getErrorMessage :: "'p browser \<Rightarrow> (string option, 'p) io" where
  "LoginPage_getErrorMessage br =
     try_catch
       (bind_io (waitFor br LoginPage_errorMessage 5000) (\<lambda>_.
        textContent br LoginPage_errorMessage))
       (\<lambda>_. return_io None)"

definition firstNameInput :: locator where
  \<open>firstNameInput = Locator ''[data-test="firstName"]''\<close>

definition lastNameInput :: locator where
  \<open>lastNameInput = Locator ''[data-test="lastName"]''\<close>

definition postalCodeInput :: locator where
  \<open>postalCodeInput = Locator ''[data-test="postalCode"]''\<close>

definition CheckoutPage_errorMessage :: locator where
  \<open>CheckoutPage_errorMessage = Locator ''[data-test="error"]''\<close>

definition fillFirstName :: "'p browser \<Rightarrow> string \<Rightarrow> (unit, 'p) io" where
  "fillFirstName br firstName =
     bind_io (clear br firstNameInput) (\<lambda>_.
     fill br firstNameInput firstName)"

definition fillLastName :: "'p browser \<Rightarrow> string \<Rightarrow> (unit, 'p) io" where
  "fillLastName br lastName =
     bind_io (clear br lastNameInput) (\<lambda>_.
     fill br lastNameInput lastName)"

definition fillPostalCode :: "'p browser \<Rightarrow> string \<Rightarrow> (unit, 'p) io" where
  "fillPostalCode br postalCode =
     bind_io (clear br postalCodeInput) (\<lambda>_.
     fill br postalCodeInput postalCode)"

definition fillCheckoutInformation ::
  "'p browser \<Rightarrow> string \<Rightarrow> string \<Rightarrow> string \<Rightarrow> (unit, 'p) io" where
  "fillCheckoutInformation br firstName lastName postalCode =
     bind_io (fillFirstName br firstName) (\<lambda>_.
     bind_io (fillLastName br lastName) (\<lambda>_.
     fillPostalCode br postalCode))"

definition CheckoutPage_getErrorMessage :: "'p browser \<Rightarrow> (string option, 'p) io" where
  "CheckoutPage_getErrorMessage br =
     try_catch
       (bind_io (waitFor br CheckoutPage_errorMessage 5000) (\<lambda>_.
        textContent br CheckoutPage_errorMessage))
       (\<lambda>_. return_io None)"

text \<open>
  The individual steps as a scenario would issue them: one awaited call after the other,
  a throw ending the scenario.
\<close>

definition in_sequence :: "(unit, 'p) io list \<Rightarrow> (unit, 'p) io" where
  "in_sequence steps = for_of steps (\<lambda>step. step)"

definition login_page_example :: page where
  "login_page_example = \<lparr>
     shown = [(usernameInput, ['''']), (passwordInput, ['''']), (loginButton, [''''])],
     actions = [] \<rparr>"

definition checkout_page_example :: page where
  "checkout_page_example = \<lparr>
     shown = [(firstNameInput, ['''']), (lastNameInput, ['''']), (postalCodeInput, ['''']),
              (CheckoutPage_errorMessage, [''Error: First Name is required''])],
     actions = [] \<rparr>"

section \<open>CartPage: removing an item\<close>







section \<open>CheckoutCompletePage: completion messages\<close>

text \<open>
  A value is truthy in \<open>text ? a : b\<close> unless it is \<open>null\<close> or the empty string.
  \<open>String.prototype.includes\<close> looks for the search string at every position.
\<close>

definition truthy :: "string option \<Rightarrow> bool" where
  "truthy text = (case text of None \<Rightarrow> False | Some t \<Rightarrow> t \<noteq> [])"

fun startsWith :: "string \<Rightarrow> string \<Rightarrow> bool" where
  "startsWith s [] = True"
| "startsWith [] (c # cs) = False"
| "startsWith (a # as) (c # cs) = (a = c \<and> startsWith as cs)"

fun str_includes :: "string \<Rightarrow> string \<Rightarrow> bool" where
  "str_includes [] searchString = startsWith [] searchString"
| "str_includes (a # as) searchString =
     (startsWith (a # as) searchString \<or> str_includes as searchString)"

definition completeHeader :: locator where
  "completeHeader = Locator ''.complete-header''"

definition completeText :: locator where
  "completeText = Locator ''.complete-text''"

definition getCompleteHeaderText :: "'p browser \<Rightarrow> (string, 'p) io" where
  "getCompleteHeaderText br =
     bind_io (textContent br completeHeader) (\<lambda>headerText.
     return_io (if truthy headerText then trim (the headerText) else ''''))"

definition getCompleteText :: "'p browser \<Rightarrow> (string, 'p) io" where
  "getCompleteText br =
     bind_io (textContent br completeText) (\<lambda>completeText.
     return_io (if truthy completeText then trim (the completeText) else ''''))"

definition verifyCheckoutCompletion :: "'p browser \<Rightarrow> (bool, 'p) io" where
  "verifyCheckoutCompletion br =
     bind_io (getCompleteHeaderText br) (\<lambda>headerText.
     bind_io (getCompleteText br) (\<lambda>completeText.
     return_io (headerText = ''Thank you for your order!'' \<and>
                str_includes completeText ''Your order has been dispatched'')))"

definition verifyThankYouMessage :: "'p browser \<Rightarrow> (bool, 'p) io" where
  "verifyThankYouMessage br =
     bind_io (getCompleteHeaderText br) (\<lambda>headerText.
     return_io (headerText = ''Thank you for your order!''))"

definition verifyOrderDispatchMessage :: "'p browser \<Rightarrow> (bool, 'p) io" where
  "verifyOrderDispatchMessage br =
     bind_io (getCompleteText br) (\<lambda>completeText.
     return_io (str_includes completeText ''Your order has been dispatched'' \<and>
                str_includes completeText ''will arrive just as fast as the pony can get there!''))"

definition complete_page_example :: page where
  "complete_page_example = \<lparr>
     shown = [(completeHeader, [''Thank you for your order!'']),
              (completeText, [''Your order has been dispatched.''])],
     actions = [] \<rparr>"

section \<open>JavaScript numbers\<close>

text \<open>
  A JavaScript number is an IEEE 754 binary64 value: \<open>NaN\<close>, an infinity, or a finite
  value \<open>Finite negative m e\<close> that stands for \<open>\<plusminus> m * 2^e\<close>. Finite values are kept in
  one form: zero is \<open>m = 0, e = 0\<close> (with its sign), a normal number has
  \<open>2^52 \<le> m < 2^53\<close> and \<open>-1074 \<le> e \<le> 971\<close>, a subnormal one has \<open>m < 2^52\<close> and
  \<open>e = -1074\<close>.
\<close>

datatype jsnum = NaN | Infinity bool | Finite bool int int

function bitlen :: "int \<Rightarrow> int" where
  "bitlen n = (if n \<le> 0 then 0 else 1 + bitlen (n div 2))"
  by pat_completeness auto
termination
  by (relation "measure nat") auto

declare bitlen.simps [simp del]

text \<open>The quotient \<open>n / d\<close> rounded to the nearest integer, a tie going to the even one.\<close>

definition div_round_even :: "int \<Rightarrow> int \<Rightarrow> int" where
  "div_round_even n d =
     (let q = n div d; r = n mod d
      in if d < 2 * r \<or> (2 * r = d \<and> odd q) then q + 1 else q)"

definition at_least_pow2 :: "int \<Rightarrow> int \<Rightarrow> int \<Rightarrow> bool" where
  "at_least_pow2 a b l = (if 0 \<le> l then b * 2 ^ nat l \<le> a else b \<le> a * 2 ^ nat (- l))"

text \<open>
  \<open>round64 negative a b\<close> is the binary64 value nearest to \<open>\<plusminus> a / b\<close> (\<open>a \<ge> 0\<close>,
  \<open>b > 0\<close>), ties to even: \<open>f\<close> is the binary exponent of \<open>a / b\<close>, \<open>e\<close> the exponent of the
  last kept bit, \<open>m\<close> the rounded significand.
\<close>

definition round64 :: "bool \<Rightarrow> int \<Rightarrow> int \<Rightarrow> jsnum" where
  "round64 negative a b =
     (if a = 0 then Finite negative 0 0
      else
        let l = bitlen a - bitlen b;
            f = (if at_least_pow2 a b l then l else l - 1);
            e = max (f - 52) (- 1074);
            n = (if e < 0 then a * 2 ^ nat (- e) else a);
            d = (if e < 0 then b else b * 2 ^ nat e);
            m = div_round_even n d
        in if m = 0 then Finite negative 0 0
           else if m = 2 ^ 53 then
             (if 971 < e + 1 then Infinity negative else Finite negative (2 ^ 52) (e + 1))
           else if 971 < e then Infinity negative
           else Finite negative m e)"

definition round_dyadic :: "int \<Rightarrow> int \<Rightarrow> jsnum" where
  "round_dyadic M E =
     (if 0 \<le> E then round64 (M < 0) (\<bar>M\<bar> * 2 ^ nat E) 1
      else round64 (M < 0) \<bar>M\<bar> (2 ^ nat (- E)))"

definition signed :: "bool \<Rightarrow> int \<Rightarrow> int" where
  "signed negative m = (if negative then - m else m)"

text \<open>
  \<open>x + y\<close>: the exact sum of two finite values is \<open>M * 2^E\<close>, which is rounded; an exact
  zero sum is \<open>-0\<close> only when both operands are \<open>-0\<close>. \<open>x - y\<close> is \<open>x + (-y)\<close>.
\<close>

fun js_add :: "jsnum \<Rightarrow> jsnum \<Rightarrow> jsnum" where
  "js_add NaN y = NaN"
| "js_add x NaN = NaN"
| "js_add (Infinity s) (Infinity t) = (if s = t then Infinity s else NaN)"
| "js_add (Infinity s) (Finite t m e) = Infinity s"
| "js_add (Finite s m e) (Infinity t) = Infinity t"
| "js_add (Finite s1 m1 e1) (Finite s2 m2 e2) =
     (let E = min e1 e2;
          M = signed s1 m1 * 2 ^ nat (e1 - E) + signed s2 m2 * 2 ^ nat (e2 - E)
      in if M = 0 then Finite (s1 \<and> s2) 0 0 else round_dyadic M E)"

fun js_neg :: "jsnum \<Rightarrow> jsnum" where
  "js_neg NaN = NaN"
| "js_neg (Infinity s) = Infinity (\<not> s)"
| "js_neg (Finite s m e) = Finite (\<not> s) m e"

definition js_sub :: "jsnum \<Rightarrow> jsnum \<Rightarrow> jsnum" where
  "js_sub x y = js_add x (js_neg y)"

text \<open>\<open>Math.abs(x)\<close> and \<open>x < y\<close>; a comparison with \<open>NaN\<close> is false.\<close>

fun js_abs :: "jsnum \<Rightarrow> jsnum" where
  "js_abs NaN = NaN"
| "js_abs (Infinity s) = Infinity False"
| "js_abs (Finite s m e) = Finite False m e"

fun js_lt :: "jsnum \<Rightarrow> jsnum \<Rightarrow> bool" where
  "js_lt NaN y = False"
| "js_lt x NaN = False"
| "js_lt (Infinity s) (Infinity t) = (s \<and> \<not> t)"
| "js_lt (Infinity s) (Finite t m e) = s"
| "js_lt (Finite s m e) (Infinity t) = (\<not> t)"
| "js_lt (Finite s1 m1 e1) (Finite s2 m2 e2) =
     (let E = min e1 e2
      in signed s1 m1 * 2 ^ nat (e1 - E) < signed s2 m2 * 2 ^ nat (e2 - E))"

text \<open>
  \<open>parseFloat(string)\<close> skips leading white space and reads the longest prefix that is a
  \<open>StrDecimalLiteral\<close>: a sign, then \<open>Infinity\<close> or decimal digits with an optional
  fraction and an optional exponent (an exponent without digits is not part of the
  prefix). \<open>Decimal negative D x\<close> is the literal's exact value \<open>\<plusminus> D * 10^x\<close>.
\<close>

datatype literal = NotANumber | InfinityLiteral bool | Decimal bool int int

definition isDecimalDigit :: "char \<Rightarrow> bool" where
  "isDecimalDigit c = (48 \<le> (of_char c :: nat) \<and> (of_char c :: nat) \<le> 57)"

definition digits_value :: "string \<Rightarrow> int" where
  "digits_value ds = foldl (\<lambda>acc c. acc * 10 + (int (of_char c) - 48)) 0 ds"

definition StrDecimalLiteral :: "string \<Rightarrow> literal" where
  "StrDecimalLiteral s =
     (let negative = (s \<noteq> [] \<and> hd s = CHR ''-'');
          u = (if s \<noteq> [] \<and> (hd s = CHR ''+'' \<or> hd s = CHR ''-'') then tl s else s)
      in if startsWith u ''Infinity'' then InfinityLiteral negative
         else
           let ip = takeWhile isDecimalDigit u;
               r1 = dropWhile isDecimalDigit u;
               dot = (r1 \<noteq> [] \<and> hd r1 = CHR ''.'');
               fp = (if dot then takeWhile isDecimalDigit (tl r1) else []);
               r2 = (if dot then dropWhile isDecimalDigit (tl r1) else r1)
           in if ip = [] \<and> fp = [] then NotANumber
              else
                let r3 = (if r2 \<noteq> [] \<and> (hd r2 = CHR ''e'' \<or> hd r2 = CHR ''E'')
                          then tl r2 else []);
                    eneg = (r3 \<noteq> [] \<and> hd r3 = CHR ''-'');
                    r4 = (if r3 \<noteq> [] \<and> (hd r3 = CHR ''+'' \<or> hd r3 = CHR ''-'')
                          then tl r3 else r3);
                    ed = takeWhile isDecimalDigit r4;
                    x = (if eneg then - digits_value ed else digits_value ed)
                in Decimal negative (digits_value (ip @ fp)) (x - int (length fp)))"

fun literal_number :: "literal \<Rightarrow> jsnum" where
  "literal_number NotANumber = NaN"
| "literal_number (InfinityLiteral negative) = Infinity negative"
| "literal_number (Decimal negative D x) =
     (if 0 \<le> x then round64 negative (D * 10 ^ nat x) 1
      else round64 negative D (10 ^ nat (- x)))"

definition parseFloat :: "string \<Rightarrow> jsnum" where
  "parseFloat inputString = literal_number (StrDecimalLiteral (dropWhile isWhiteSpace inputString))"

text \<open>
  \<open>parseInt(string)\<close> without a radix: skip leading white space, take a sign, take a
  \<open>0x\<close> or \<open>0X\<close> prefix as radix 16 and radix 10 otherwise, read the longest run of
  digits of that radix, and give \<open>NaN\<close> when the run is empty. The result is the nearest
  binary64 value, \<open>-0\<close> for a negative zero.
\<close>

definition digitOf :: "nat \<Rightarrow> char \<Rightarrow> nat option" where
  "digitOf R c =
     (let n = of_char c :: nat;
          v = (if 48 \<le> n \<and> n \<le> 57 then n - 48
               else if 97 \<le> n \<and> n \<le> 122 then n - 87
               else if 65 \<le> n \<and> n \<le> 90 then n - 55
               else 36)
      in if v < R then Some v else None)"

definition parseInt :: "string \<Rightarrow> jsnum" where
  "parseInt inputString =
     (let S = dropWhile isWhiteSpace inputString;
          negative = (S \<noteq> [] \<and> hd S = CHR ''-'');
          S1 = (if S \<noteq> [] \<and> (hd S = CHR ''+'' \<or> hd S = CHR ''-'') then tl S else S);
          hex = (take 2 S1 = ''0x'' \<or> take 2 S1 = ''0X'');
          R = (if hex then 16 else 10);
          S2 = (if hex then drop 2 S1 else S1);
          Z = takeWhile (\<lambda>c. digitOf R c \<noteq> None) S2;
          mathInt = foldl (\<lambda>acc c. acc * int R + int (the (digitOf R c))) 0 Z
      in if Z = [] then NaN else round64 negative mathInt 1)"

section \<open>InventoryPage: the cart badge\<close>

definition cartBadge :: locator where
  "cartBadge = Locator ''.shopping_cart_badge''"

text \<open>The literal \<open>0\<close> is \<open>Finite False 0 0\<close>.\<close>

definition InventoryPage_getCartItemCount :: "'p browser \<Rightarrow> (jsnum, 'p) io" where
  "InventoryPage_getCartItemCount br =
     try_catch
       (bind_io (textContent br cartBadge) (\<lambda>badgeText.
        return_io (if truthy badgeText then parseInt (the badgeText) else Finite False 0 0)))
       (\<lambda>_. return_io (Finite False 0 0))"

definition badge_page :: "string \<Rightarrow> page" where
  "badge_page text = \<lparr> shown = [(cartBadge, [text])], actions = [] \<rparr>"

definition no_badge_page :: page where
  "no_badge_page = \<lparr> shown = [], actions = [] \<rparr>"

section \<open>CheckoutOverviewPage: the total\<close>

definition overview_cartItemPrices :: locator where
  "overview_cartItemPrices = Locator ''.inventory_item_price''"

definition totalLabel :: locator where
  "totalLabel = Locator ''.summary_total_label''"

definition overview_getCartItemPrices :: "'p browser \<Rightarrow> (string list, 'p) io" where
  "overview_getCartItemPrices br =
     bind_io (allTextContents br overview_cartItemPrices) (\<lambda>prices.
     return_io (map trim prices))"

definition getTotal :: "'p browser \<Rightarrow> (string, 'p) io" where
  "getTotal br =
     bind_io (textContent br totalLabel) (\<lambda>totalText.
     return_io (if truthy totalText then trim (the totalText) else ''''))"

text \<open>
  \<open>s.replace(c, '')\<close> with a one-character string pattern removes the first occurrence of
  the character; \<open>s.replace(/[^0-9.]/g, '')\<close> keeps the digits and the dots.
\<close>

definition remove_first :: "char \<Rightarrow> string \<Rightarrow> string" where
  "remove_first c s = takeWhile (\<lambda>x. x \<noteq> c) s @ drop 1 (dropWhile (\<lambda>x. x \<noteq> c) s)"

definition digits_and_dots :: "string \<Rightarrow> string" where
  "digits_and_dots s = filter (\<lambda>c. isDecimalDigit c \<or> c = CHR ''.'') s"

definition calculateTotalFromItems :: "'p browser \<Rightarrow> (jsnum, 'p) io" where
  "calculateTotalFromItems br =
     bind_io (overview_getCartItemPrices br) (\<lambda>prices.
     return_io (foldl (\<lambda>total price.
                  let numericPrice = parseFloat (remove_first CHR ''$'' price)
                  in js_add total numericPrice)
                (Finite False 0 0) prices))"

definition expect_toBeLessThan :: "jsnum \<Rightarrow> jsnum \<Rightarrow> (unit, 'p) io" where
  "expect_toBeLessThan received expected =
     (if js_lt received expected then return_io () else throw_io ExpectError)"

text \<open>The literal \<open>0.01\<close> is the binary64 value nearest to \<open>1/100\<close>.\<close>

definition verifyTotalCalculation :: "'p browser \<Rightarrow> (unit, 'p) io" where
  "verifyTotalCalculation br =
     bind_io (calculateTotalFromItems br) (\<lambda>calculatedTotal.
     bind_io (getTotal br) (\<lambda>displayedTotal.
     let totalAmount = parseFloat (digits_and_dots displayedTotal)
     in expect_toBeLessThan (js_abs (js_sub calculatedTotal totalAmount)) (round64 False 1 100)))"

text \<open>
  The check in exact arithmetic: the per-item prices, each read after stripping a
  leading \<open>$\<close>, and the number in the displayed total are taken at their exact decimal
  values, and the absolute difference of the sum and the total is compared with \<open>1/100\<close>.
\<close>

fun exact_value :: "literal \<Rightarrow> rat option" where
  "exact_value NotANumber = None"
| "exact_value (InfinityLiteral negative) = None"
| "exact_value (Decimal negative D x) =
     Some ((if negative then - 1 else 1) * of_int D *
           (if 0 \<le> x then 10 ^ nat x else 1 / 10 ^ nat (- x)))"

definition exact_number :: "string \<Rightarrow> rat option" where
  "exact_number s = exact_value (StrDecimalLiteral (dropWhile isWhiteSpace s))"

definition strip_dollar_prefix :: "string \<Rightarrow> string" where
  "strip_dollar_prefix s = (if s \<noteq> [] \<and> hd s = CHR ''$'' then tl s else s)"

definition exact_total_check :: "string list \<Rightarrow> string \<Rightarrow> bool" where
  "exact_total_check prices displayedTotal =
     (case (those (map (\<lambda>price. exact_number (strip_dollar_prefix price)) prices),
            exact_number (digits_and_dots displayedTotal)) of
        (Some values, Some amount) \<Rightarrow> \<bar>sum_list values - amount\<bar> < 1 / 100
      | _ \<Rightarrow> False)"

definition overview_page :: "string list \<Rightarrow> string \<Rightarrow> page" where
  "overview_page prices displayedTotal = \<lparr>
     shown = [(overview_cartItemPrices, prices), (totalLabel, [displayedTotal])],
     actions = [] \<rparr>"

section \<open>TestHelpers: retry with backoff\<close>

text \<open>
  The wrapped action \<open>fn\<close> acts on a state \<open>'s\<close> and returns a value or throws an \<open>'e\<close>;
  \<open>setTimeout\<close> is the wait between attempts, which never throws. \<open>maxRetries\<close> and
  \<open>baseDelay\<close> are integers, and \<open>Math.pow(2, attempt)\<close> is exact on them. The variable
  \<open>lastError\<close> is \<open>None\<close> until a failure assigns it, so a thrown \<open>None\<close> is a thrown
  \<open>undefined\<close>.
\<close>

function retryWithBackoff_loop ::
  "('s \<Rightarrow> ('e + 'a) \<times> 's) \<Rightarrow> (int \<Rightarrow> 's \<Rightarrow> 's) \<Rightarrow> int \<Rightarrow> int \<Rightarrow> int \<Rightarrow> 'e option \<Rightarrow> 's
     \<Rightarrow> ('e option + 'a) \<times> 's" where
  "retryWithBackoff_loop fn setTimeout maxRetries baseDelay attempt lastError s =
     (if attempt \<le> maxRetries then
        (case fn s of
           (Inr v, s1) \<Rightarrow> (Inr v, s1)
         | (Inl error, s1) \<Rightarrow>
             if attempt = maxRetries then (Inl (Some error), s1)
             else
               let delay = baseDelay * 2 ^ nat attempt in
               retryWithBackoff_loop fn setTimeout maxRetries baseDelay (attempt + 1)
                 (Some error) (setTimeout delay s1))
      else (Inl lastError, s))"
  by pat_completeness auto
termination
  by (relation "measure (\<lambda>(fn, setTimeout, maxRetries, baseDelay, attempt, lastError, s).
        nat (maxRetries + 1 - attempt))") auto

declare retryWithBackoff_loop.simps [simp del]

definition retryWithBackoff ::
  "('s \<Rightarrow> ('e + 'a) \<times> 's) \<Rightarrow> (int \<Rightarrow> 's \<Rightarrow> 's) \<Rightarrow> int \<Rightarrow> int \<Rightarrow> 's
     \<Rightarrow> ('e option + 'a) \<times> 's" where
  "retryWithBackoff fn setTimeout maxRetries baseDelay s =
     retryWithBackoff_loop fn setTimeout maxRetries baseDelay 0 None s"

text \<open>
  To observe what a run does, the state is paired with a log: every invocation of the
  action and every wait appends an event.
\<close>

datatype event = Invoked | Waited int

definition logged :: "('s \<Rightarrow> ('e + 'a) \<times> 's) \<Rightarrow> 's \<times> event list \<Rightarrow> ('e + 'a) \<times> 's \<times> event list" where
  "logged fn = (\<lambda>(s, events). case fn s of (r, s') \<Rightarrow> (r, (s', events @ [Invoked])))"

definition log_wait :: "int \<Rightarrow> 's \<times> event list \<Rightarrow> 's \<times> event list" where
  "log_wait delay = (\<lambda>(s, events). (s, events @ [Waited delay]))"

text \<open>
  The state before invocation \<open>k\<close> (counted from 0) of the action, the outcome of that
  invocation, and the log of a run whose invocation \<open>n\<close> is the last one.
\<close>

fun state_before :: "('s \<Rightarrow> ('e + 'a) \<times> 's) \<Rightarrow> 's \<Rightarrow> nat \<Rightarrow> 's" where
  "state_before fn s 0 = s"
| "state_before fn s (Suc k) = snd (fn (state_before fn s k))"

definition outcome :: "('s \<Rightarrow> ('e + 'a) \<times> 's) \<Rightarrow> 's \<Rightarrow> nat \<Rightarrow> 'e + 'a" where
  "outcome fn s k = fst (fn (state_before fn s k))"

definition failed :: "'e + 'a \<Rightarrow> bool" where
  "failed r = (case r of Inl e \<Rightarrow> True | Inr v \<Rightarrow> False)"

definition rethrown :: "'e + 'a \<Rightarrow> 'e option + 'a" where
  "rethrown r = (case r of Inl e \<Rightarrow> Inl (Some e) | Inr v \<Rightarrow> Inr v)"

definition backoff_log :: "int \<Rightarrow> nat \<Rightarrow> nat \<Rightarrow> event list" where
  "backoff_log baseDelay a n =
     concat (map (\<lambda>k. [Invoked, Waited (baseDelay * 2 ^ k)]) [a..<n]) @ [Invoked]"

text \<open>An action that fails twice and then succeeds, counting its invocations.\<close>

definition flaky :: "nat \<Rightarrow> (string + string) \<times> nat" where
  "flaky calls = (if calls < 2 then (Inl ''not yet'', Suc calls) else (Inr ''done'', Suc calls))"

section \<open>Facts about the assertion loop\<close>

lemma for_of_toContain:
  "for_of expected (\<lambda>e. expect_toContain actual e) p =
     (if set expected \<subseteq> set actual then (Inr (), p) else (Inl ExpectError, p))"
  by (induction expected)
    (simp_all add: expect_toContain_def return_io_def throw_io_def bind_io_def)

lemma distinct_subset_same_length:
  assumes "distinct expected" "set expected \<subseteq> set actual" "length actual = length expected"
  shows "mset actual = mset expected"
proof -
  have "card (set expected) = length expected"
    using assms(1) by (simp add: distinct_card)
  moreover have "card (set expected) \<le> card (set actual)"
    using assms(2) by (simp add: card_mono)
  moreover have "card (set actual) \<le> length actual"
    by (rule card_length)
  ultimately have c: "card (set actual) = length actual" "card (set expected) = card (set actual)"
    using assms(3) by simp_all
  then have "distinct actual"
    by (simp add: card_distinct)
  moreover have "set actual = set expected"
    using assms(2) c(2) by (metis List.finite_set card_subset_eq)
  ultimately show ?thesis
    using assms(1) by (simp add: set_eq_iff_mset_eq_distinct)
qed

lemma items_check_iff:
  assumes "distinct expected"
  shows "(set expected \<subseteq> set actual \<and> length actual = length expected) \<longleftrightarrow>
         mset actual = mset expected"
proof
  assume "set expected \<subseteq> set actual \<and> length actual = length expected"
  then show "mset actual = mset expected"
    using assms distinct_subset_same_length by blast
next
  assume h: "mset actual = mset expected"
  then have "set actual = set expected" by (rule mset_eq_setD)
  moreover have "length actual = length expected" using h by (rule mset_eq_length)
  ultimately show "set expected \<subseteq> set actual \<and> length actual = length expected" by simp
qed

lemma verify_items_result:
  "bind_io (bind_io (allTextContents br l) (\<lambda>names. return_io (map trim names))) (\<lambda>actualItems.
     bind_io (for_of expectedItems (\<lambda>expectedItem. expect_toContain actualItems expectedItem)) (\<lambda>_.
     expect_toBe (length actualItems) (length expectedItems))) p =
   (case allTextContents br l p of
      (Inl e, p') \<Rightarrow> (Inl e, p')
    | (Inr names, p') \<Rightarrow>
        (if set expectedItems \<subseteq> set (map trim names) \<and> length names = length expectedItems
         then (Inr (), p') else (Inl ExpectError, p')))"
  by (simp add: bind_io_def return_io_def throw_io_def expect_toBe_def for_of_toContain
      split: prod.splits sum.splits)

lemma verify_items_succeeds:
  assumes "distinct expectedItems"
  shows "succeeds (bind_io (bind_io (allTextContents br l) (\<lambda>names. return_io (map trim names)))
           (\<lambda>actualItems.
              bind_io (for_of expectedItems (\<lambda>expectedItem. expect_toContain actualItems expectedItem)) (\<lambda>_.
              expect_toBe (length actualItems) (length expectedItems))) p) \<longleftrightarrow>
         (\<exists>names p'. allTextContents br l p = (Inr names, p') \<and>
            mset (map trim names) = mset expectedItems)"
proof (cases "allTextContents br l p")
  case (Pair r p')
  show ?thesis
  proof (cases r)
    case (Inl e)
    with Pair show ?thesis
      by (simp add: verify_items_result succeeds_def)
  next
    case (Inr names)
    have "(set expectedItems \<subseteq> set (map trim names) \<and>
           length (map trim names) = length expectedItems) \<longleftrightarrow>
          mset (map trim names) = mset expectedItems"
      using assms by (rule items_check_iff)
    with Pair Inr show ?thesis
      by (simp add: verify_items_result succeeds_def)
  qed
qed

section \<open>Cart and order verification\<close>

text \<open>
  C1. For pairwise-distinct expected names, \<open>CartPage.verifyCartItems\<close> and
  \<open>CheckoutOverviewPage.verifyOrderItems\<close> succeed exactly when the names read from the
  screen (the text of every item-name element, trimmed) are a permutation of the expected
  names.
\<close>

theorem verify_items_iff_permutation:
  assumes "distinct expectedItems"
  shows "(succeeds (verifyCartItems br expectedItems p) \<longleftrightarrow>
            (\<exists>names p'. allTextContents br cartItemNames p = (Inr names, p') \<and>
               mset (map trim names) = mset expectedItems)) \<and>
         (succeeds (verifyOrderItems br expectedItems p) \<longleftrightarrow>
            (\<exists>names p'. allTextContents br overview_cartItemNames p = (Inr names, p') \<and>
               mset (map trim names) = mset expectedItems))"
  unfolding verifyCartItems_def verifyOrderItems_def getCartItemNames_def
    overview_getCartItemNames_def
  using assms by (simp only: verify_items_succeeds)

theorem verify_items_iff_permutation_witness:
  "distinct [''Sauce Labs Backpack'', ''Sauce Labs Bike Light''] \<and>
   succeeds (verifyCartItems reference_browser
     [''Sauce Labs Backpack'', ''Sauce Labs Bike Light''] cart_page_example) \<and>
   succeeds (verifyOrderItems reference_browser
     [''Sauce Labs Backpack'', ''Sauce Labs Bike Light''] cart_page_example) \<and>
   mset (map trim ['' Sauce Labs Bike Light '', ''Sauce Labs Backpack'']) =
     mset [''Sauce Labs Backpack'', ''Sauce Labs Bike Light'']"
proof -
  have d: "distinct [''Sauce Labs Backpack'', ''Sauce Labs Bike Light'']"
    by simp
  have t: "map trim ['' Sauce Labs Bike Light '', ''Sauce Labs Backpack''] =
           [''Sauce Labs Bike Light'', ''Sauce Labs Backpack'']"
    by (simp add: trim_def isWhiteSpace_def)
  have a: "allTextContents reference_browser cartItemNames cart_page_example =
             (Inr ['' Sauce Labs Bike Light '', ''Sauce Labs Backpack''], cart_page_example)"
          "allTextContents reference_browser overview_cartItemNames cart_page_example =
             (Inr ['' Sauce Labs Bike Light '', ''Sauce Labs Backpack''], cart_page_example)"
    by (simp_all add: reference_browser_def matches_def cart_page_example_def
        cartItemNames_def overview_cartItemNames_def)
  have m: "mset (map trim ['' Sauce Labs Bike Light '', ''Sauce Labs Backpack'']) =
           mset [''Sauce Labs Backpack'', ''Sauce Labs Bike Light'']"
    unfolding t by (simp add: add_mset_commute)
  show ?thesis
    using verify_items_iff_permutation [OF d, of reference_browser cart_page_example] a m d
    by blast
qed

section \<open>Laws of sequencing\<close>

lemma bind_return_left: "bind_io (return_io v) f = f v"
  by (simp add: bind_io_def return_io_def)

lemma bind_return_right: "bind_io m return_io = m"
  by (auto simp: bind_io_def return_io_def fun_eq_iff split: prod.splits sum.splits)

lemma bind_throw: "bind_io (throw_io e) f = throw_io e"
  by (simp add: bind_io_def throw_io_def)

lemma bind_assoc: "bind_io (bind_io m f) g = bind_io m (\<lambda>v. bind_io (f v) g)"
  by (auto simp: bind_io_def fun_eq_iff split: prod.splits sum.splits)

section \<open>Adding items to the cart\<close>

lemma same_letter_lower: "same_letter a b \<Longrightarrow> toLowerCase_char a = toLowerCase_char b"
proof -
  have up: "toLowerCase_char x = y"
    if "isAsciiUpper x" "(of_char y :: nat) = of_char x + 32" for x y
  proof -
    have "toLowerCase_char x = char_of (of_char x + 32 :: nat)"
      using that(1) by (simp add: toLowerCase_char_def isAsciiUpper_def)
    also have "\<dots> = char_of (of_char y :: nat)"
      using that(2) by simp
    finally show ?thesis by simp
  qed
  have low: "toLowerCase_char y = y"
    if "isAsciiUpper x" "(of_char y :: nat) = of_char x + 32" for x y
    using that by (simp add: toLowerCase_char_def isAsciiUpper_def)
  assume "same_letter a b"
  then consider "a = b" | "isAsciiUpper a" "(of_char b :: nat) = of_char a + 32"
    | "isAsciiUpper b" "(of_char a :: nat) = of_char b + 32"
    unfolding same_letter_def by blast
  then show ?thesis
  proof cases
    case 1
    then show ?thesis by simp
  next
    case 2
    then show ?thesis using up [of a b] low [of a b] by simp
  next
    case 3
    then show ?thesis using up [of b a] low [of b a] by simp
  qed
qed

lemma casing_variant_lower: "casing_variant v k \<Longrightarrow> toLowerCase v = toLowerCase k"
  unfolding casing_variant_def toLowerCase_def
  by (induction v k rule: list_all2_induct) (simp_all add: same_letter_lower)

lemma lower_known_names:
  "toLowerCase ''Sauce Labs Backpack'' = ''sauce labs backpack''"
  "toLowerCase ''Sauce Labs Bike Light'' = ''sauce labs bike light''"
  "toLowerCase ''Sauce Labs Bolt T-Shirt'' = ''sauce labs bolt t-shirt''"
  by code_simp+

lemma add_body:
  "(let key = toLowerCase item in
       if key = ''sauce labs backpack'' then addBackpackToCart br
       else if key = ''sauce labs bike light'' then addBikeLightToCart br
       else if key = ''sauce labs bolt t-shirt'' then addBoltTShirtToCart br
       else throw_io (Error (''Unknown item: '' @ item))) =
   (if recognized item then click br (add_control item)
    else throw_io (Error (''Unknown item: '' @ item)))"
  by (simp add: recognized_def add_control_def addBackpackToCart_def addBikeLightToCart_def
      addBoltTShirtToCart_def Let_def)

text \<open>
  C6. \<open>InventoryPage.addItemsToCart\<close> clicks the add-to-cart control of each recognized
  name in list order; at the first unrecognized name it throws \<open>Unknown item: <name>\<close>,
  after the clicks for the names before it and with no click for any name after it.
\<close>

theorem addItemsToCart_fail_fast:
  "addItemsToCart br items =
     (case dropWhile recognized items of
        [] \<Rightarrow> for_of (map add_control items) (click br)
      | bad # rest \<Rightarrow>
          bind_io (for_of (map add_control (takeWhile recognized items)) (click br))
            (\<lambda>_. throw_io (Error (''Unknown item: '' @ bad))))"
  unfolding addItemsToCart_def add_body
proof (induction items)
  case Nil
  show ?case by simp
next
  case (Cons item items)
  show ?case
  proof (cases "recognized item")
    case True
    show ?thesis
    proof (cases "dropWhile recognized items")
      case Nil
      have "dropWhile recognized (item # items) = []"
        using True Nil by simp
      then show ?thesis
        using True Cons.IH Nil by (simp del: dropWhile_eq_Nil_conv)
    next
      case (Cons bad rest)
      have "dropWhile recognized (item # items) = bad # rest"
        using True Cons by simp
      then show ?thesis
        using True Cons.IH Cons by (simp add: bind_assoc)
    qed
  next
    case False
    then show ?thesis
      by (simp add: bind_throw bind_return_left)
  qed
qed

theorem addItemsToCart_fail_fast_witness:
  "addItemsToCart reference_browser
     [''Sauce Labs Backpack'', ''sauce labs BIKE light'', ''Sauce Labs Onesie'',
      ''Sauce Labs Bolt T-Shirt''] inventory_page_example =
   (Inl (Error ''Unknown item: Sauce Labs Onesie''),
    inventory_page_example\<lparr>actions := [Click sauceLabsBackpack, Click sauceLabsBikeLight]\<rparr>)"
proof -
  have "(case dropWhile recognized [''Sauce Labs Backpack'', ''sauce labs BIKE light'',
            ''Sauce Labs Onesie'', ''Sauce Labs Bolt T-Shirt''] of
          [] \<Rightarrow> for_of (map add_control [''Sauce Labs Backpack'', ''sauce labs BIKE light'',
            ''Sauce Labs Onesie'', ''Sauce Labs Bolt T-Shirt'']) (click reference_browser)
        | bad # rest \<Rightarrow>
          bind_io (for_of (map add_control (takeWhile recognized [''Sauce Labs Backpack'',
            ''sauce labs BIKE light'', ''Sauce Labs Onesie'', ''Sauce Labs Bolt T-Shirt'']))
              (click reference_browser))
            (\<lambda>_. throw_io (Error (''Unknown item: '' @ bad)))) inventory_page_example =
        (Inl (Error ''Unknown item: Sauce Labs Onesie''),
         inventory_page_example\<lparr>actions := [Click sauceLabsBackpack, Click sauceLabsBikeLight]\<rparr>)"
    by code_simp
  then show ?thesis
    by (simp only: addItemsToCart_fail_fast)
qed

lemma lower_same_letter:
  assumes "toLowerCase_char x = toLowerCase_char c" "(of_char c :: nat) < 128"
  shows "same_letter x c"
proof -
  let ?n = "of_char x :: nat" and ?k = "of_char c :: nat"
  have nb: "?n < 256" by simp
  have code: "(of_char (toLowerCase_char x) :: nat) = of_char (toLowerCase_char c)"
    using assms(1) by simp
  have lx: "(of_char (toLowerCase_char x) :: nat) =
              (if (65 \<le> ?n \<and> ?n \<le> 90) \<or> (192 \<le> ?n \<and> ?n \<le> 222 \<and> ?n \<noteq> 215)
               then ?n + 32 else ?n)"
    using nb by (auto simp: toLowerCase_char_def)
  have lc: "(of_char (toLowerCase_char c) :: nat) =
              (if 65 \<le> ?k \<and> ?k \<le> 90 then ?k + 32 else ?k)"
    using assms(2) by (auto simp: toLowerCase_char_def)
  have "?n = ?k \<or> (65 \<le> ?n \<and> ?n \<le> 90 \<and> ?k = ?n + 32) \<or>
        (65 \<le> ?k \<and> ?k \<le> 90 \<and> ?n = ?k + 32)"
    using code assms(2) unfolding lx lc by (auto split: if_splits)
  then show ?thesis
    unfolding same_letter_def isAsciiUpper_def by auto
qed

lemma lower_casing_variant:
  assumes "toLowerCase v = toLowerCase k" "\<forall>c \<in> set k. (of_char c :: nat) < 128"
  shows "casing_variant v k"
  using assms unfolding toLowerCase_def casing_variant_def
proof (induction v arbitrary: k)
  case Nil
  then show ?case by simp
next
  case (Cons x v)
  then obtain c k' where k: "k = c # k'" by (cases k) auto
  with Cons.prems have "toLowerCase_char x = toLowerCase_char c"
    "map toLowerCase_char v = map toLowerCase_char k'"
    "(of_char c :: nat) < 128" "\<forall>c \<in> set k'. (of_char c :: nat) < 128"
    by auto
  then show ?case
    using Cons.IH [of k'] lower_same_letter k by simp
qed

lemma ascii_known_names:
  "\<forall>c \<in> set ''Sauce Labs Backpack''. (of_char c :: nat) < 128"
  "\<forall>c \<in> set ''Sauce Labs Bike Light''. (of_char c :: nat) < 128"
  "\<forall>c \<in> set ''Sauce Labs Bolt T-Shirt''. (of_char c :: nat) < 128"
  by simp_all

lemma casing_variant_known:
  "casing_variant item ''Sauce Labs Backpack'' \<longleftrightarrow> toLowerCase item = ''sauce labs backpack''"
  "casing_variant item ''Sauce Labs Bike Light'' \<longleftrightarrow> toLowerCase item = ''sauce labs bike light''"
  "casing_variant item ''Sauce Labs Bolt T-Shirt'' \<longleftrightarrow>
     toLowerCase item = ''sauce labs bolt t-shirt''"
  using casing_variant_lower [of item] lower_casing_variant [of item] ascii_known_names
  by (metis lower_known_names(1), metis lower_known_names(2), metis lower_known_names(3))

lemma control_for_cases:
  "control_for item =
     (if toLowerCase item = ''sauce labs backpack'' then Some sauceLabsBackpack
      else if toLowerCase item = ''sauce labs bike light'' then Some sauceLabsBikeLight
      else if toLowerCase item = ''sauce labs bolt t-shirt'' then Some sauceLabsBoltTShirt
      else None)"
  by (simp add: control_for_def known_items_def casing_variant_known)

lemma add_body_control:
  "(let key = toLowerCase item in
       if key = ''sauce labs backpack'' then addBackpackToCart br
       else if key = ''sauce labs bike light'' then addBikeLightToCart br
       else if key = ''sauce labs bolt t-shirt'' then addBoltTShirtToCart br
       else throw_io (Error (''Unknown item: '' @ item))) =
   (case control_for item of
      Some control \<Rightarrow> click br control
    | None \<Rightarrow> throw_io (Error (''Unknown item: '' @ item)))"
  by (simp add: control_for_cases addBackpackToCart_def addBikeLightToCart_def
      addBoltTShirtToCart_def Let_def)

text \<open>
  C10. \<open>InventoryPage.addItemsToCart\<close> matches names case-insensitively. It goes through
  the list in order; a name that is a casing variant of one of the three known names gets
  that item's add-to-cart control clicked, any other name is rejected with
  \<open>Unknown item: <name>\<close>, and a name is of the second kind exactly when its lowercased
  form is none of the three labels.
\<close>

theorem addItemsToCart_case_insensitive:
  "addItemsToCart br items =
     for_of items (\<lambda>item.
       case control_for item of
         Some control \<Rightarrow> click br control
       | None \<Rightarrow> throw_io (Error (''Unknown item: '' @ item))) \<and>
   (\<forall>known \<in> set known_items.
      casing_variant item (fst known) \<longrightarrow> control_for item = Some (snd known)) \<and>
   (control_for item = None \<longleftrightarrow>
      toLowerCase item \<notin>
        {''sauce labs backpack'', ''sauce labs bike light'', ''sauce labs bolt t-shirt''})"
  unfolding addItemsToCart_def add_body_control
  by (simp add: control_for_cases known_items_def casing_variant_known)

theorem addItemsToCart_case_insensitive_witness:
  "addItemsToCart reference_browser
     [''SAUCE LABS backpack'', ''sauce labs bike light'', ''Sauce Labs Bolt t-shirt'']
     inventory_page_example =
   (Inr (), inventory_page_example\<lparr>actions :=
      [Click sauceLabsBackpack, Click sauceLabsBikeLight, Click sauceLabsBoltTShirt]\<rparr>) \<and>
   addItemsToCart reference_browser [''sauce labs BACKPACK'', ''Sauce Labs Onesie'']
     inventory_page_example =
   (Inl (Error ''Unknown item: Sauce Labs Onesie''),
    inventory_page_example\<lparr>actions := [Click sauceLabsBackpack]\<rparr>) \<and>
   control_for ''Sauce Labs Onesie'' = None \<and>
   control_for ''sAUCE lABS bIKE lIGHT'' = Some sauceLabsBikeLight"
proof -
  let ?body = "\<lambda>item. case control_for item of
                  Some control \<Rightarrow> click reference_browser control
                | None \<Rightarrow> throw_io (Error (''Unknown item: '' @ item))"
  have a: "for_of [''SAUCE LABS backpack'', ''sauce labs bike light'',
             ''Sauce Labs Bolt t-shirt''] ?body inventory_page_example =
           (Inr (), inventory_page_example\<lparr>actions :=
              [Click sauceLabsBackpack, Click sauceLabsBikeLight, Click sauceLabsBoltTShirt]\<rparr>)"
    by code_simp
  have b: "for_of [''sauce labs BACKPACK'', ''Sauce Labs Onesie''] ?body
             inventory_page_example =
           (Inl (Error ''Unknown item: Sauce Labs Onesie''),
            inventory_page_example\<lparr>actions := [Click sauceLabsBackpack]\<rparr>)"
    by code_simp
  have l: "toLowerCase ''Sauce Labs Onesie'' = ''sauce labs onesie''"
    by code_simp
  have v: "casing_variant ''sAUCE lABS bIKE lIGHT'' ''Sauce Labs Bike Light''"
    by code_simp
  have k: "(''Sauce Labs Bike Light'', sauceLabsBikeLight) \<in> set known_items"
    by (simp add: known_items_def)
  have c: "control_for ''Sauce Labs Onesie'' = None"
    using addItemsToCart_case_insensitive [of reference_browser "[]" "''Sauce Labs Onesie''"]
    by (simp add: l)
  have d: "control_for ''sAUCE lABS bIKE lIGHT'' = Some sauceLabsBikeLight"
    using addItemsToCart_case_insensitive [of reference_browser "[]" "''sAUCE lABS bIKE lIGHT''"]
      v k
    by fastforce
  show ?thesis
    using addItemsToCart_case_insensitive [of reference_browser
        "[''SAUCE LABS backpack'', ''sauce labs bike light'', ''Sauce Labs Bolt t-shirt'']"]
      addItemsToCart_case_insensitive [of reference_browser
        "[''sauce labs BACKPACK'', ''Sauce Labs Onesie'']"]
      a b c d
    by simp
qed

section \<open>Login and checkout forms\<close>

lemma in_sequence_three:
  "in_sequence [a, b, c] = bind_io a (\<lambda>_. bind_io b (\<lambda>_. c))"
  by (simp add: in_sequence_def bind_return_right)

text \<open>
  C8. \<open>LoginPage.login\<close> is \<open>fillUsername\<close>, then \<open>fillPassword\<close>, then \<open>clickLogin\<close>, and
  \<open>CheckoutPage.fillCheckoutInformation\<close> is \<open>fillFirstName\<close>, then \<open>fillLastName\<close>, then
  \<open>fillPostalCode\<close>: on every page state the combined call has the outcome and the final
  page state of the individual calls issued one after the other.
\<close>

theorem combined_forms_are_sequences:
  "login br username password p =
     in_sequence [fillUsername br username, fillPassword br password, clickLogin br] p \<and>
   fillCheckoutInformation br firstName lastName postalCode p =
     in_sequence [fillFirstName br firstName, fillLastName br lastName,
                  fillPostalCode br postalCode] p"
  by (simp add: login_def fillCheckoutInformation_def in_sequence_three)

theorem combined_forms_are_sequences_witness:
  "login reference_browser ''standard_user'' ''secret_sauce'' login_page_example =
     (Inr (), login_page_example\<lparr>actions :=
        [Clear usernameInput, Fill usernameInput ''standard_user'',
         Clear passwordInput, Fill passwordInput ''secret_sauce'', Click loginButton]\<rparr>) \<and>
   fillCheckoutInformation reference_browser ''demo'' ''user'' ''12345'' checkout_page_example =
     (Inr (), checkout_page_example\<lparr>actions :=
        [Clear firstNameInput, Fill firstNameInput ''demo'',
         Clear lastNameInput, Fill lastNameInput ''user'',
         Clear postalCodeInput, Fill postalCodeInput ''12345'']\<rparr>)"
proof -
  have "in_sequence [fillUsername reference_browser ''standard_user'',
          fillPassword reference_browser ''secret_sauce'', clickLogin reference_browser]
          login_page_example =
        (Inr (), login_page_example\<lparr>actions :=
          [Clear usernameInput, Fill usernameInput ''standard_user'',
           Clear passwordInput, Fill passwordInput ''secret_sauce'', Click loginButton]\<rparr>)"
    by code_simp
  moreover have "in_sequence [fillFirstName reference_browser ''demo'',
          fillLastName reference_browser ''user'', fillPostalCode reference_browser ''12345'']
          checkout_page_example =
        (Inr (), checkout_page_example\<lparr>actions :=
          [Clear firstNameInput, Fill firstNameInput ''demo'',
           Clear lastNameInput, Fill lastNameInput ''user'',
           Clear postalCodeInput, Fill postalCodeInput ''12345'']\<rparr>)"
    by code_simp
  ultimately show ?thesis
    using combined_forms_are_sequences [of reference_browser "''standard_user''"
        "''secret_sauce''" login_page_example "''demo''" "''user''" "''12345''"]
      combined_forms_are_sequences [of reference_browser "''standard_user''"
        "''secret_sauce''" checkout_page_example "''demo''" "''user''" "''12345''"]
    by simp
qed

section \<open>Error banners\<close>

lemma banner_query_result:
  "try_catch (bind_io (waitFor br l t) (\<lambda>_. textContent br l)) (\<lambda>_. return_io None) p =
     (case waitFor br l t p of
        (Inl e, p1) \<Rightarrow> (Inr None, p1)
      | (Inr u, p1) \<Rightarrow>
          (case textContent br l p1 of
             (Inl e, p2) \<Rightarrow> (Inr None, p2)
           | (Inr text, p2) \<Rightarrow> (Inr text, p2)))"
  by (simp add: try_catch_def bind_io_def return_io_def split: prod.splits sum.splits)

lemma banner_query_succeeds:
  "succeeds (try_catch (bind_io (waitFor br l t) (\<lambda>_. textContent br l))
     (\<lambda>_. return_io None) p)"
  by (simp add: banner_query_result succeeds_def split: prod.splits sum.splits)

text \<open>
  C7. \<open>LoginPage.getErrorMessage\<close> and \<open>CheckoutPage.getErrorMessage\<close> never throw. They
  wait for the banner with a timeout of 5000 ms; they return the banner's text when the
  wait and the read succeed, and \<open>null\<close> when either throws.
\<close>

theorem getErrorMessage_never_throws:
  "succeeds (LoginPage_getErrorMessage br p) \<and>
   succeeds (CheckoutPage_getErrorMessage br p) \<and>
   LoginPage_getErrorMessage br p =
     (case waitFor br LoginPage_errorMessage 5000 p of
        (Inl e, p1) \<Rightarrow> (Inr None, p1)
      | (Inr u, p1) \<Rightarrow>
          (case textContent br LoginPage_errorMessage p1 of
             (Inl e, p2) \<Rightarrow> (Inr None, p2)
           | (Inr text, p2) \<Rightarrow> (Inr text, p2))) \<and>
   CheckoutPage_getErrorMessage br p =
     (case waitFor br CheckoutPage_errorMessage 5000 p of
        (Inl e, p1) \<Rightarrow> (Inr None, p1)
      | (Inr u, p1) \<Rightarrow>
          (case textContent br CheckoutPage_errorMessage p1 of
             (Inl e, p2) \<Rightarrow> (Inr None, p2)
           | (Inr text, p2) \<Rightarrow> (Inr text, p2)))"
  unfolding LoginPage_getErrorMessage_def CheckoutPage_getErrorMessage_def
  by (simp only: banner_query_result [symmetric] banner_query_succeeds simp_thms)

theorem getErrorMessage_never_throws_witness:
  "LoginPage_getErrorMessage reference_browser login_page_example =
     (Inr None, login_page_example) \<and>
   CheckoutPage_getErrorMessage reference_browser checkout_page_example =
     (Inr (Some ''Error: First Name is required''), checkout_page_example)"
proof -
  have "waitFor reference_browser LoginPage_errorMessage 5000 login_page_example =
          (Inl TimeoutError, login_page_example)"
    by (simp add: reference_browser_def matches_def login_page_example_def
        LoginPage_errorMessage_def usernameInput_def passwordInput_def loginButton_def)
  moreover have "waitFor reference_browser CheckoutPage_errorMessage 5000 checkout_page_example =
          (Inr (), checkout_page_example)"
    "textContent reference_browser CheckoutPage_errorMessage checkout_page_example =
          (Inr (Some ''Error: First Name is required''), checkout_page_example)"
    by (simp_all add: reference_browser_def matches_def read_text_def checkout_page_example_def
        CheckoutPage_errorMessage_def firstNameInput_def lastNameInput_def postalCodeInput_def)
  ultimately show ?thesis
    using getErrorMessage_never_throws [of reference_browser login_page_example]
      getErrorMessage_never_throws [of reference_browser checkout_page_example]
    by simp
qed

section \<open>Removing an item from the cart\<close>






section \<open>Completion messages\<close>

lemma startsWith_iff: "startsWith s searchString \<longleftrightarrow> (\<exists>rest. s = searchString @ rest)"
  by (induction s searchString rule: startsWith.induct) auto

lemma str_includes_iff:
  "str_includes s searchString \<longleftrightarrow> (\<exists>before rest. s = before @ searchString @ rest)"
proof (induction s)
  case Nil
  show ?case by (simp add: startsWith_iff)
next
  case (Cons a as)
  show ?case
  proof
    assume "str_includes (a # as) searchString"
    then consider "startsWith (a # as) searchString" | "str_includes as searchString"
      by auto
    then show "\<exists>before rest. a # as = before @ searchString @ rest"
    proof cases
      case 1
      then obtain rest where "a # as = [] @ searchString @ rest"
        by (auto simp: startsWith_iff)
      then show ?thesis by blast
    next
      case 2
      then obtain before rest where "as = before @ searchString @ rest"
        using Cons.IH by blast
      then have "a # as = (a # before) @ searchString @ rest" by simp
      then show ?thesis by blast
    qed
  next
    assume "\<exists>before rest. a # as = before @ searchString @ rest"
    then obtain before rest where eq: "a # as = before @ searchString @ rest" by blast
    show "str_includes (a # as) searchString"
    proof (cases before)
      case Nil
      with eq have "startsWith (a # as) searchString"
        by (simp add: startsWith_iff)
      then show ?thesis by simp
    next
      case (Cons b before')
      with eq have "as = before' @ searchString @ rest" by simp
      then show ?thesis using Cons.IH by auto
    qed
  qed
qed

lemma verifyCheckoutCompletion_result:
  "verifyCheckoutCompletion br p =
     (case getCompleteHeaderText br p of
        (Inl e, p1) \<Rightarrow> (Inl e, p1)
      | (Inr headerText, p1) \<Rightarrow>
          (case getCompleteText br p1 of
             (Inl e, p2) \<Rightarrow> (Inl e, p2)
           | (Inr bodyText, p2) \<Rightarrow>
               (Inr (headerText = ''Thank you for your order!'' \<and>
                     (\<exists>before rest. bodyText =
                        before @ ''Your order has been dispatched'' @ rest)), p2)))"
  by (simp add: verifyCheckoutCompletion_def bind_io_def return_io_def str_includes_iff
      split: prod.splits sum.splits)

text \<open>
  C4. \<open>CheckoutCompletePage.verifyCheckoutCompletion\<close> checks the header and the first
  body substring only. On a page whose body is ``Your order has been dispatched.'' it
  returns \<open>true\<close> although the body lacks the second substring, which
  \<open>verifyOrderDispatchMessage\<close> requires: the composite check accepts a page that the
  header check and the body check together reject.
\<close>

theorem verifyCheckoutCompletion_skips_second_substring:
  "verifyCheckoutCompletion reference_browser complete_page_example =
     (Inr True, complete_page_example) \<and>
   \<not> str_includes ''Your order has been dispatched.''
       ''will arrive just as fast as the pony can get there!'' \<and>
   verifyThankYouMessage reference_browser complete_page_example =
     (Inr True, complete_page_example) \<and>
   verifyOrderDispatchMessage reference_browser complete_page_example =
     (Inr False, complete_page_example)"
  by code_simp

section \<open>The cart badge\<close>

text \<open>
  C3. \<open>InventoryPage.getCartItemCount\<close> falls back to 0 when the badge is missing or its
  text is empty, but a badge whose text is not a number, such as ``abc'', makes it return
  \<open>NaN\<close> instead of 0: \<open>parseInt\<close> gives \<open>NaN\<close> and nothing guards against it.
\<close>

theorem getCartItemCount_unparsable_is_NaN:
  "InventoryPage_getCartItemCount reference_browser (badge_page ''abc'') =
     (Inr NaN, badge_page ''abc'') \<and>
   InventoryPage_getCartItemCount reference_browser (badge_page ''abc'') \<noteq>
     (Inr (Finite False 0 0), badge_page ''abc'') \<and>
   InventoryPage_getCartItemCount reference_browser no_badge_page =
     (Inr (Finite False 0 0), no_badge_page) \<and>
   InventoryPage_getCartItemCount reference_browser (badge_page '''') =
     (Inr (Finite False 0 0), badge_page '''')"
  by code_simp

section \<open>The order total\<close>

text \<open>
  Known binary64 values: 0.1 is \<open>0x1999999999999A * 2^-56\<close>, 0.1 + 0.2 is one unit above
  0.3, the largest finite value is \<open>(2^53 - 1) * 2^971\<close> and half a unit more overflows,
  a tie between two subnormal values goes to the even one, and \<open>2^53 + 1\<close> rounds to
  \<open>2^53\<close>.
\<close>

lemma binary64_known_values:
  "parseFloat ''0.1'' = Finite False 7205759403792794 (- 56)"
  "parseFloat ''0.3'' = Finite False 5404319552844595 (- 54)"
  "js_add (parseFloat ''0.1'') (parseFloat ''0.2'') = Finite False 5404319552844596 (- 54)"
  "round64 False (2 ^ 1024 - 2 ^ 970 - 1) 1 = Finite False (2 ^ 53 - 1) 971"
  "round64 False (2 ^ 1024 - 2 ^ 970) 1 = Infinity False"
  "round64 False 3 (2 ^ 1075) = Finite False 2 (- 1074)"
  "round64 False 1 (2 ^ 1075) = Finite False 0 0"
  "parseInt ''9007199254740993'' = Finite False (2 ^ 52) 1"
  "parseInt ''-0'' = Finite True 0 0"
  by code_simp+

lemma js_add_NaN_right: "js_add x NaN = NaN"
  by (cases x) simp_all

lemma foldl_js_add_NaN: "foldl js_add NaN xs = NaN"
  by (induction xs) simp_all

lemma foldl_js_add_has_NaN: "NaN \<in> set xs \<Longrightarrow> foldl js_add z xs = NaN"
proof (induction xs arbitrary: z)
  case Nil
  then show ?case by simp
next
  case (Cons x xs)
  show ?case
  proof (cases "x = NaN")
    case True
    then show ?thesis by (simp add: js_add_NaN_right foldl_js_add_NaN)
  next
    case False
    then have "NaN \<in> set xs" using Cons.prems by auto
    then show ?thesis using Cons.IH by simp
  qed
qed

lemma calculated_total:
  "foldl (\<lambda>total price. js_add total (parseFloat (remove_first CHR ''$'' price))) z
     (map trim prices) =
   foldl js_add z (map (\<lambda>price. parseFloat (remove_first CHR ''$'' (trim price))) prices)"
  by (induction prices arbitrary: z) simp_all

lemma verifyTotalCalculation_result:
  "verifyTotalCalculation br p =
     (case allTextContents br overview_cartItemPrices p of
        (Inl e, p1) \<Rightarrow> (Inl e, p1)
      | (Inr prices, p1) \<Rightarrow>
          (case textContent br totalLabel p1 of
             (Inl e, p2) \<Rightarrow> (Inl e, p2)
           | (Inr totalText, p2) \<Rightarrow>
               (if js_lt (js_abs (js_sub
                      (foldl js_add (Finite False 0 0)
                         (map (\<lambda>price. parseFloat (remove_first CHR ''$'' (trim price))) prices))
                      (parseFloat (digits_and_dots
                         (if truthy totalText then trim (the totalText) else '''')))))
                    (round64 False 1 100)
                then (Inr (), p2) else (Inl ExpectError, p2))))"
  by (simp add: verifyTotalCalculation_def calculateTotalFromItems_def
      overview_getCartItemPrices_def getTotal_def expect_toBeLessThan_def bind_io_def
      return_io_def throw_io_def calculated_total Let_def
      split: prod.splits sum.splits)

text \<open>
  C5, as the code has it. \<open>CheckoutOverviewPage.verifyTotalCalculation\<close> passes exactly
  when the prices and the total can be read and, in binary64 arithmetic, the absolute
  difference of the sum and the total is below the binary64 value of 0.01. The sum adds,
  from 0 and in display order, \<open>parseFloat\<close> of each trimmed price with its first \<open>$\<close>
  removed; the total is \<open>parseFloat\<close> of the digits and dots of the trimmed total text. A
  price that does not parse makes the sum \<open>NaN\<close> and the check fail.
\<close>

theorem verifyTotalCalculation_binary64:
  "(succeeds (verifyTotalCalculation br p) \<longleftrightarrow>
      (\<exists>prices p1 totalText p2.
         allTextContents br overview_cartItemPrices p = (Inr prices, p1) \<and>
         textContent br totalLabel p1 = (Inr totalText, p2) \<and>
         js_lt (js_abs (js_sub
                  (foldl js_add (Finite False 0 0)
                     (map (\<lambda>price. parseFloat (remove_first CHR ''$'' (trim price))) prices))
                  (parseFloat (digits_and_dots
                     (if truthy totalText then trim (the totalText) else '''')))))
               (round64 False 1 100))) \<and>
   (\<forall>prices p1. allTextContents br overview_cartItemPrices p = (Inr prices, p1) \<longrightarrow>
      (\<exists>price \<in> set prices. parseFloat (remove_first CHR ''$'' (trim price)) = NaN) \<longrightarrow>
      \<not> succeeds (verifyTotalCalculation br p))"
proof (intro conjI allI impI)
  show "succeeds (verifyTotalCalculation br p) \<longleftrightarrow>
      (\<exists>prices p1 totalText p2.
         allTextContents br overview_cartItemPrices p = (Inr prices, p1) \<and>
         textContent br totalLabel p1 = (Inr totalText, p2) \<and>
         js_lt (js_abs (js_sub
                  (foldl js_add (Finite False 0 0)
                     (map (\<lambda>price. parseFloat (remove_first CHR ''$'' (trim price))) prices))
                  (parseFloat (digits_and_dots
                     (if truthy totalText then trim (the totalText) else '''')))))
               (round64 False 1 100))"
  proof (cases "allTextContents br overview_cartItemPrices p")
    case (Pair r p1)
    show ?thesis
    proof (cases r)
      case (Inl e)
      with Pair show ?thesis
        by (simp add: verifyTotalCalculation_result succeeds_def)
    next
      case (Inr prices)
      show ?thesis
      proof (cases "textContent br totalLabel p1")
        case (Pair r2 p2)
        show ?thesis
        proof (cases r2)
          case (Inl e)
          with Pair Inr \<open>allTextContents br overview_cartItemPrices p = (r, p1)\<close>
          show ?thesis
            by (simp add: verifyTotalCalculation_result succeeds_def)
        next
          case (Inr totalText)
          with Pair \<open>r = Inr prices\<close> \<open>allTextContents br overview_cartItemPrices p = (r, p1)\<close>
          show ?thesis
            by (simp add: verifyTotalCalculation_result succeeds_def)
        qed
      qed
    qed
  qed
next
  fix prices p1
  assume read: "allTextContents br overview_cartItemPrices p = (Inr prices, p1)"
    and bad: "\<exists>price \<in> set prices. parseFloat (remove_first CHR ''$'' (trim price)) = NaN"
  have "NaN \<in> set (map (\<lambda>price. parseFloat (remove_first CHR ''$'' (trim price))) prices)"
    using bad by force
  then have "foldl js_add (Finite False 0 0)
               (map (\<lambda>price. parseFloat (remove_first CHR ''$'' (trim price))) prices) = NaN"
    by (rule foldl_js_add_has_NaN)
  then show "\<not> succeeds (verifyTotalCalculation br p)"
    using read
    by (simp add: verifyTotalCalculation_result succeeds_def js_sub_def
        split: prod.splits sum.splits)
qed

theorem verifyTotalCalculation_binary64_witness:
  "succeeds (verifyTotalCalculation reference_browser
     (overview_page [''$29.99'', '' $9.99'', ''$15.99''] ''Total: $55.97'')) \<and>
   \<not> succeeds (verifyTotalCalculation reference_browser
     (overview_page [''$29.99'', '' $9.99'', ''$15.99''] ''Total: $60.45'')) \<and>
   \<not> succeeds (verifyTotalCalculation reference_browser
     (overview_page [''$29.99'', ''free''] ''Total: $29.99''))"
proof -
  let ?ok = "overview_page [''$29.99'', '' $9.99'', ''$15.99''] ''Total: $55.97''"
  let ?tax = "overview_page [''$29.99'', '' $9.99'', ''$15.99''] ''Total: $60.45''"
  let ?free = "overview_page [''$29.99'', ''free''] ''Total: $29.99''"
  have prices: "\<And>prices t. allTextContents reference_browser overview_cartItemPrices
                  (overview_page prices t) = (Inr prices, overview_page prices t)"
    by (simp add: reference_browser_def matches_def overview_page_def)
  have label: "\<And>prices t. textContent reference_browser totalLabel (overview_page prices t) =
                   (Inr (Some t), overview_page prices t)"
    by (simp add: reference_browser_def read_text_def matches_def overview_page_def
        overview_cartItemPrices_def totalLabel_def)
  have close: "js_lt (js_abs (js_sub
                  (foldl js_add (Finite False 0 0)
                     (map (\<lambda>price. parseFloat (remove_first CHR ''$'' (trim price)))
                        [''$29.99'', '' $9.99'', ''$15.99'']))
                  (parseFloat (digits_and_dots
                     (if truthy (Some ''Total: $55.97'') then trim (the (Some ''Total: $55.97''))
                      else '''')))))
               (round64 False 1 100)"
    by code_simp
  have far: "\<not> js_lt (js_abs (js_sub
                  (foldl js_add (Finite False 0 0)
                     (map (\<lambda>price. parseFloat (remove_first CHR ''$'' (trim price)))
                        [''$29.99'', '' $9.99'', ''$15.99'']))
                  (parseFloat (digits_and_dots
                     (if truthy (Some ''Total: $60.45'') then trim (the (Some ''Total: $60.45''))
                      else '''')))))
               (round64 False 1 100)"
    by code_simp
  have free: "parseFloat (remove_first CHR ''$'' (trim ''free'')) = NaN"
    by code_simp
  have a: "succeeds (verifyTotalCalculation reference_browser ?ok)"
    using verifyTotalCalculation_binary64 [of reference_browser ?ok] prices label close
    by blast
  have b: "\<not> succeeds (verifyTotalCalculation reference_browser ?tax)"
  proof
    assume "succeeds (verifyTotalCalculation reference_browser ?tax)"
    then obtain ps p1 t p2 where
      "allTextContents reference_browser overview_cartItemPrices ?tax = (Inr ps, p1)"
      "textContent reference_browser totalLabel p1 = (Inr t, p2)"
      "js_lt (js_abs (js_sub
                  (foldl js_add (Finite False 0 0)
                     (map (\<lambda>price. parseFloat (remove_first CHR ''$'' (trim price))) ps))
                  (parseFloat (digits_and_dots (if truthy t then trim (the t) else '''')))))
               (round64 False 1 100)"
      using verifyTotalCalculation_binary64 [of reference_browser ?tax] by blast
    then show False
      using far by (auto simp: prices label)
  qed
  have c: "\<not> succeeds (verifyTotalCalculation reference_browser ?free)"
    using verifyTotalCalculation_binary64 [of reference_browser ?free] prices free
    by (metis list.set_intros(1,2))
  show ?thesis
    using a b c by blast
qed

text \<open>
  In exact arithmetic the check differs from the code: for the single price ``$0.03'' and
  the total ``Total: $0.02'' the exact difference is 0.01, which is not below 0.01, yet
  the code passes, because the binary64 difference of 0.03 and 0.02 is below the binary64
  value of 0.01. Stripping a \<open>$\<close> prefix also differs from the code, which removes the
  first \<open>$\<close> wherever it stands: the price ``1$2'' is read as 12 and passes against the
  total ``12'', where the price without a \<open>$\<close> prefix reads as 1.
\<close>

theorem verifyTotalCalculation_exact_counterexample:
  "succeeds (verifyTotalCalculation reference_browser
     (overview_page [''$0.03''] ''Total: $0.02'')) \<and>
   \<not> exact_total_check [''$0.03''] ''Total: $0.02'' \<and>
   succeeds (verifyTotalCalculation reference_browser (overview_page [''1$2''] ''12'')) \<and>
   \<not> exact_total_check [''1$2''] ''12''"
  by code_simp

section \<open>Retry with backoff\<close>

lemma backoff_log_last: "backoff_log d a a = [Invoked]"
  by (simp add: backoff_log_def)

lemma backoff_log_step:
  "a < n \<Longrightarrow> backoff_log d a n = [Invoked, Waited (d * 2 ^ a)] @ backoff_log d (Suc a) n"
  by (simp add: backoff_log_def upt_conv_Cons)

lemma logged_step:
  "logged fn (state_before fn s a, events) =
     (outcome fn s a, (state_before fn s (Suc a), events @ [Invoked]))"
  by (simp add: logged_def outcome_def split: prod.splits)

lemma retry_loop_success:
  assumes "a \<le> M" "outcome fn s a = Inr v"
  shows "retryWithBackoff_loop (logged fn) log_wait (int M) d (int a) le
           (state_before fn s a, events) =
         (Inr v, (state_before fn s (Suc a), events @ [Invoked]))"
  using assms
  by (subst retryWithBackoff_loop.simps) (simp add: logged_step)

lemma retry_loop_exhausted:
  assumes "outcome fn s M = Inl e"
  shows "retryWithBackoff_loop (logged fn) log_wait (int M) d (int M) le
           (state_before fn s M, events) =
         (Inl (Some e), (state_before fn s (Suc M), events @ [Invoked]))"
  using assms
  by (subst retryWithBackoff_loop.simps) (simp add: logged_step)

lemma retry_loop_again:
  assumes "a < M" "outcome fn s a = Inl e"
  shows "retryWithBackoff_loop (logged fn) log_wait (int M) d (int a) le
           (state_before fn s a, events) =
         retryWithBackoff_loop (logged fn) log_wait (int M) d (int (Suc a)) (Some e)
           (state_before fn s (Suc a), events @ [Invoked, Waited (d * 2 ^ a)])"
  using assms
  by (subst retryWithBackoff_loop.simps)
    (simp add: logged_step log_wait_def Let_def add.commute)

lemma retry_loop_run:
  assumes "a \<le> M"
  shows "\<exists>n. a \<le> n \<and> n \<le> M \<and>
           (\<forall>k. a \<le> k \<longrightarrow> k < n \<longrightarrow> failed (outcome fn s k)) \<and>
           (failed (outcome fn s n) \<longrightarrow> n = M) \<and>
           retryWithBackoff_loop (logged fn) log_wait (int M) d (int a) le
             (state_before fn s a, events) =
           (rethrown (outcome fn s n), (state_before fn s (Suc n), events @ backoff_log d a n))"
  using assms
proof (induction a arbitrary: le events rule: inc_induct)
  case base
  show ?case
  proof (cases "outcome fn s M")
    case (Inl e)
    then have "retryWithBackoff_loop (logged fn) log_wait (int M) d (int M) le
                 (state_before fn s M, events) =
               (rethrown (outcome fn s M),
                (state_before fn s (Suc M), events @ backoff_log d M M))"
      by (simp add: retry_loop_exhausted rethrown_def backoff_log_last)
    then show ?thesis by auto
  next
    case (Inr v)
    then have "retryWithBackoff_loop (logged fn) log_wait (int M) d (int M) le
                 (state_before fn s M, events) =
               (rethrown (outcome fn s M),
                (state_before fn s (Suc M), events @ backoff_log d M M))"
      by (simp add: retry_loop_success rethrown_def backoff_log_last)
    then show ?thesis by auto
  qed
next
  case (step a)
  show ?case
  proof (cases "outcome fn s a")
    case (Inr v)
    have "a \<le> M" using step.hyps by simp
    then have "retryWithBackoff_loop (logged fn) log_wait (int M) d (int a) le
                 (state_before fn s a, events) =
               (rethrown (outcome fn s a),
                (state_before fn s (Suc a), events @ backoff_log d a a))"
      using Inr by (simp add: retry_loop_success rethrown_def backoff_log_last)
    moreover have "\<not> failed (outcome fn s a)"
      using Inr by (simp add: failed_def)
    ultimately show ?thesis
      using \<open>a \<le> M\<close> by (intro exI [of _ a]) simp
  next
    case (Inl e)
    obtain n where n: "Suc a \<le> n" "n \<le> M"
      "\<forall>k. Suc a \<le> k \<longrightarrow> k < n \<longrightarrow> failed (outcome fn s k)"
      "failed (outcome fn s n) \<longrightarrow> n = M"
      "retryWithBackoff_loop (logged fn) log_wait (int M) d (int (Suc a)) (Some e)
         (state_before fn s (Suc a), events @ [Invoked, Waited (d * 2 ^ a)]) =
       (rethrown (outcome fn s n),
        (state_before fn s (Suc n),
         (events @ [Invoked, Waited (d * 2 ^ a)]) @ backoff_log d (Suc a) n))"
      using step.IH [of "Some e" "events @ [Invoked, Waited (d * 2 ^ a)]"] by blast
    have an: "a < n" using n(1) by simp
    have fa: "failed (outcome fn s a)"
      using Inl by (simp add: failed_def)
    have "\<forall>k. a \<le> k \<longrightarrow> k < n \<longrightarrow> failed (outcome fn s k)"
    proof (intro allI impI)
      fix k assume "a \<le> k" "k < n"
      then show "failed (outcome fn s k)"
        using fa n(3) by (cases "k = a") auto
    qed
    moreover have "retryWithBackoff_loop (logged fn) log_wait (int M) d (int a) le
                     (state_before fn s a, events) =
                   (rethrown (outcome fn s n),
                    (state_before fn s (Suc n), events @ backoff_log d a n))"
      using retry_loop_again [OF step.hyps(2) Inl, of d le events] n(5)
        backoff_log_step [OF an, of d]
      by simp
    ultimately show ?thesis
      using an n(2) n(4) by (intro exI [of _ n]) simp
  qed
qed

text \<open>
  C2. With \<open>maxRetries = m \<ge> 0\<close> and base delay \<open>d\<close>, a run of
  \<open>TestHelpers.retryWithBackoff\<close> invokes the action \<open>n + 1\<close> times for some \<open>n \<le> m\<close>:
  invocations \<open>0..n-1\<close> fail and each failed invocation \<open>k\<close> is followed by a wait of
  \<open>d * 2^k\<close>; the run ends right after invocation \<open>n\<close>, returning its value if it
  succeeded, and if it failed then \<open>n = m\<close> and its error is rethrown.
\<close>

theorem retryWithBackoff_bounded_rethrows:
  assumes "0 \<le> m"
  shows "\<exists>n \<le> nat m.
           (\<forall>k < n. failed (outcome fn s k)) \<and>
           (failed (outcome fn s n) \<longrightarrow> n = nat m) \<and>
           retryWithBackoff (logged fn) log_wait m d (s, []) =
             (rethrown (outcome fn s n), (state_before fn s (Suc n), backoff_log d 0 n))"
proof -
  have m: "int (nat m) = m" using assms by simp
  obtain n where "n \<le> nat m"
    "\<forall>k. 0 \<le> k \<longrightarrow> k < n \<longrightarrow> failed (outcome fn s k)"
    "failed (outcome fn s n) \<longrightarrow> n = nat m"
    "retryWithBackoff_loop (logged fn) log_wait (int (nat m)) d (int 0) None
       (state_before fn s 0, []) =
     (rethrown (outcome fn s n), (state_before fn s (Suc n), [] @ backoff_log d 0 n))"
    using retry_loop_run [of 0 "nat m" fn s d None "[]"] by blast
  then show ?thesis
    unfolding retryWithBackoff_def using m by (intro exI [of _ n]) simp
qed

theorem retryWithBackoff_bounded_rethrows_witness:
  "retryWithBackoff (logged flaky) log_wait 3 1000 (0, []) =
     (Inr ''done'', (3, [Invoked, Waited 1000, Invoked, Waited 2000, Invoked])) \<and>
   retryWithBackoff (logged flaky) log_wait 1 1000 (0, []) =
     (Inl (Some ''not yet''), (2, [Invoked, Waited 1000, Invoked]))"
proof -
  have o: "outcome flaky 0 0 = Inl ''not yet''" "outcome flaky 0 1 = Inl ''not yet''"
    "outcome flaky 0 2 = Inr ''done''"
    by (simp_all add: outcome_def flaky_def numeral_2_eq_2)
  have st: "state_before flaky 0 (Suc 2) = 3" "state_before flaky 0 (Suc 1) = 2"
    by (simp_all add: flaky_def numeral_2_eq_2 numeral_3_eq_3)
  have lg: "backoff_log 1000 0 2 = [Invoked, Waited 1000, Invoked, Waited 2000, Invoked]"
    "backoff_log 1000 0 1 = [Invoked, Waited 1000, Invoked]"
    by (simp_all add: backoff_log_def numeral_2_eq_2 upt_rec)
  obtain n where n: "n \<le> nat 3" "\<forall>k < n. failed (outcome flaky 0 k)"
    "failed (outcome flaky 0 n) \<longrightarrow> n = nat 3"
    "retryWithBackoff (logged flaky) log_wait 3 1000 (0, []) =
       (rethrown (outcome flaky 0 n), (state_before flaky 0 (Suc n), backoff_log 1000 0 n))"
    using retryWithBackoff_bounded_rethrows [of 3 flaky 0 1000] by auto
  have "n = 2"
  proof (rule ccontr)
    assume "n \<noteq> 2"
    then consider "n = 0" | "n = 1" | "n = 3"
      using n(1) by force
    then show False
    proof cases
      case 1
      then show False using n(3) o(1) by (simp add: failed_def)
    next
      case 2
      then show False using n(3) o(2) by (simp add: failed_def)
    next
      case 3
      then have "failed (outcome flaky 0 2)" using n(2) by simp
      then show False using o(3) by (simp add: failed_def)
    qed
  qed
  then have first: "retryWithBackoff (logged flaky) log_wait 3 1000 (0, []) =
     (Inr ''done'', (3, [Invoked, Waited 1000, Invoked, Waited 2000, Invoked]))"
    using n(4) o(3) st(1) lg(1) by (simp add: rethrown_def)
  obtain j where j: "j \<le> nat 1" "\<forall>k < j. failed (outcome flaky 0 k)"
    "failed (outcome flaky 0 j) \<longrightarrow> j = nat 1"
    "retryWithBackoff (logged flaky) log_wait 1 1000 (0, []) =
       (rethrown (outcome flaky 0 j), (state_before flaky 0 (Suc j), backoff_log 1000 0 j))"
    using retryWithBackoff_bounded_rethrows [of 1 flaky 0 1000] by auto
  have "j = 1"
  proof (rule ccontr)
    assume "j \<noteq> 1"
    then have "j = 0" using j(1) by simp
    then show False using j(3) o(1) by (simp add: failed_def)
  qed
  then have second: "retryWithBackoff (logged flaky) log_wait 1 1000 (0, []) =
     (Inl (Some ''not yet''), (2, [Invoked, Waited 1000, Invoked]))"
    using j(4) o(2) st(2) lg(2) by (simp add: rethrown_def)
  show ?thesis
    using first second by simp
qed

end
